theory Spec2Isabelle
  imports Main "HOL-Library.AList" "HOL-Library.Multiset"
begin

section \<open>Data model\<close>

text \<open>
  The application (\<^verbatim>\<open>app.js\<close>) stores one JSON document per poll. A document holds the
  poll's title, its options, its creation time and, once somebody voted, the tallies.
  JavaScript strings are modelled as \<^typ>\<open>string\<close>; the handlers only split them at line
  breaks and compare them for equality, so the code units can be read as bytes.
  A JavaScript value that may be \<^verbatim>\<open>undefined\<close> is an \<^typ>\<open>'a option\<close>.
\<close>

record poll =
  name :: "string option"
  data :: "string list"
  created_at :: nat
  votes :: "(string \<times> nat) list"

text \<open>What a file holds: a JSON document of a poll, or text that \<^verbatim>\<open>JSON.parse\<close> rejects.\<close>

datatype content = Json poll | Malformed string

text \<open>
  The failures of a request. Four are Node's file system errors: \<open>NotFound\<close> is
  \<^verbatim>\<open>ENOENT\<close>, \<open>NotADirectory\<close> is \<^verbatim>\<open>ENOTDIR\<close>, \<open>IsADirectory\<close> is \<^verbatim>\<open>EISDIR\<close> and
  \<open>AlreadyExists\<close> is \<^verbatim>\<open>EEXIST\<close>. \<open>CorruptData\<close> is the \<^verbatim>\<open>SyntaxError\<close> of
  \<^verbatim>\<open>JSON.parse\<close>, \<open>TypeError\<close> a method call on a value that has no such method.
\<close>

datatype error =
  NotFound | NotADirectory | IsADirectory | AlreadyExists | CorruptData | TypeError

type_synonym path = "string list"

text \<open>The object that \<^verbatim>\<open>sanitizeData(req)\<close> returns, with the two fields the handler uses.\<close>

record sanitized =
  sd_name :: "string option"
  sd_data :: "string option"

text \<open>The session of \<^verbatim>\<open>cookie-session\<close>: an object with two optional fields.\<close>

record sess =
  errorMessages :: "string list option"
  sbody :: "(string \<times> string) list option"

text \<open>
  A request, after the middlewares ran: \<open>body\<close> is the form-encoded body, \<open>session\<close> the
  session object that \<^verbatim>\<open>cookie-session\<close> always provides, \<open>markers\<close> the ids of the polls
  whose uniqueness cookie the browser sent.
\<close>

record request =
  baseUrl :: string
  params_id :: string
  body :: "(string \<times> string) list"
  query_is_voted :: "string option"
  session :: sess
  markers :: "string list"

text \<open>The mutations of a handler, in the order in which it performs them.\<close>

datatype effect = SessionNull | MkDir path | WriteFile path

record world =
  dirs :: "path list"
  files :: "(path \<times> content) list"
  log :: "effect list"

datatype locals =
  FormLocals string "string list" "string option" bool
  | ResultLocals "(string \<times> nat) list" "string option"

datatype response = Redirect string | Render string locals | Throw error

record outcome =
  response :: response
  session_after :: "sess option"
  cookies_after :: "string list"
  world_after :: world

section \<open>The file system\<close>

text \<open>
  A path is the list of its components below the root. The disk holds directories and
  regular files; the root always is a directory, and a path that is listed as a directory
  is one. Every entry is accessible: permissions and resource limits are not part of the
  model.
\<close>

definition dirname :: "path \<Rightarrow> path" where
  "dirname p = butlast p"

definition is_dir :: "world \<Rightarrow> path \<Rightarrow> bool" where
  "is_dir w p = (p = [] \<or> p \<in> set (dirs w))"

definition is_file :: "world \<Rightarrow> path \<Rightarrow> bool" where
  "is_file w p = (\<not> is_dir w p \<and> map_of (files w) p \<noteq> None)"

text \<open>The prefixes of a path, shortest first: with the path itself, and without it.\<close>

definition ancestors :: "path \<Rightarrow> path list" where
  "ancestors p = map (\<lambda>n. take n p) [1..<Suc (length p)]"

definition proper_ancestors :: "path \<Rightarrow> path list" where
  "proper_ancestors p = map (\<lambda>n. take n p) [1..<length p]"

text \<open>
  Walking down to the parent of a path, as \<^verbatim>\<open>open\<close> does: the first component on the way
  that is no directory decides. Where nothing is there the walk fails with \<^verbatim>\<open>ENOENT\<close>,
  where a regular file is there with \<^verbatim>\<open>ENOTDIR\<close>.
\<close>

definition resolve_parent :: "world \<Rightarrow> path \<Rightarrow> error option" where
  "resolve_parent w p =
     (case filter (\<lambda>q. \<not> is_dir w q) (proper_ancestors p) of
        [] \<Rightarrow> None
      | q # _ \<Rightarrow> if is_file w q then Some NotADirectory else Some NotFound)"

text \<open>
  \<^verbatim>\<open>fs.mkdirSync(dir, {recursive: true})\<close> makes the directory and every missing ancestor.
  It fails where a regular file is in the way: with \<^verbatim>\<open>EEXIST\<close> when the file is at the
  path itself, with \<^verbatim>\<open>ENOTDIR\<close> when it is at an ancestor.
\<close>

definition mkdirSync :: "path \<Rightarrow> world \<Rightarrow> error + world" where
  "mkdirSync d w =
     (case filter (is_file w) (ancestors d) of
        [] \<Rightarrow> Inr (w\<lparr>dirs := fold List.insert (ancestors d) (dirs w), log := log w @ [MkDir d]\<rparr>)
      | q # _ \<Rightarrow> if q = d then Inl AlreadyExists else Inl NotADirectory)"

text \<open>
  \<^verbatim>\<open>fs.writeFileSync(path, text)\<close> creates or replaces the file. It fails where the parent
  cannot be reached and, with \<^verbatim>\<open>EISDIR\<close>, where the path is a directory.
\<close>

definition writeFileSync :: "path \<Rightarrow> content \<Rightarrow> world \<Rightarrow> error + world" where
  "writeFileSync p c w =
     (case resolve_parent w p of
        Some e \<Rightarrow> Inl e
      | None \<Rightarrow>
          if is_dir w p then Inl IsADirectory
          else Inr (w\<lparr>files := AList.update p c (files w), log := log w @ [WriteFile p]\<rparr>))"

text \<open>
  \<^verbatim>\<open>fs.readFileSync(path, {encoding: "utf-8"})\<close> fails where the parent cannot be reached,
  with \<^verbatim>\<open>EISDIR\<close> where the path is a directory, and with \<^verbatim>\<open>ENOENT\<close> where nothing is at
  the path.
\<close>

definition readFileSync :: "path \<Rightarrow> world \<Rightarrow> error + content" where
  "readFileSync p w =
     (case resolve_parent w p of
        Some e \<Rightarrow> Inl e
      | None \<Rightarrow>
          if is_dir w p then Inl IsADirectory
          else (case map_of (files w) p of None \<Rightarrow> Inl NotFound | Some c \<Rightarrow> Inr c))"

definition JSON_parse :: "content \<Rightarrow> error + poll" where
  "JSON_parse c = (case c of Json p \<Rightarrow> Inr p | Malformed _ \<Rightarrow> Inl CorruptData)"

section \<open>Normalising the submitted options\<close>

abbreviation LF :: char where
  "LF \<equiv> CHR 0x0A"

abbreviation CR :: char where
  "CR \<equiv> CHR 0x0D"

text \<open>
  \<^verbatim>\<open>str.split(/\r?\n/)\<close>: the text is cut at every line feed, and a carriage return
  right before the line feed belongs to the separator. The first argument collects the
  current piece in reverse.
\<close>

fun split_lines :: "string \<Rightarrow> string \<Rightarrow> string list" where
  "split_lines cur [] = [rev cur]"
| "split_lines cur [c] = (if c = LF then [rev cur, []] else [rev (c # cur)])"
| "split_lines cur (c # d # cs) =
     (if c = CR \<and> d = LF then rev cur # split_lines [] cs
      else if c = LF then rev cur # split_lines [] (d # cs)
      else split_lines (c # cur) (d # cs))"

text \<open>\<^verbatim>\<open>self.indexOf(elem)\<close>: the first position of the element, or \<open>-1\<close>.\<close>

fun indexOf :: "'a list \<Rightarrow> 'a \<Rightarrow> int" where
  "indexOf [] e = - 1"
| "indexOf (x # xs) e =
     (if x = e then 0 else (let r = indexOf xs e in if r < 0 then - 1 else r + 1))"

text \<open>\<^verbatim>\<open>.filter((elem, index, self) => self.indexOf(elem) === index)\<close>\<close>

definition unique :: "'a list \<Rightarrow> 'a list" where
  "unique self = map snd (filter (\<lambda>(index, elem). indexOf self elem = int index) (enumerate 0 self))"

text \<open>Lines 112 to 114: split, drop the empty strings (\<^verbatim>\<open>filter(v => v)\<close>), make unique.\<close>

definition normalize_data :: "string \<Rightarrow> string list" where
  "normalize_data d = unique (filter (\<lambda>v. v \<noteq> []) (split_lines [] d))"


text \<open>
  The specification's wording of the deduplication, for comparison: of each option only
  its first occurrence is kept.
\<close>

fun dedup_first :: "'a list \<Rightarrow> 'a list" where
  "dedup_first [] = []"
| "dedup_first (x # xs) = x # dedup_first (filter (\<lambda>y. y \<noteq> x) xs)"

section \<open>Creating a poll\<close>

text \<open>
  \<^verbatim>\<open>app.post('/create')\<close>. Three collaborators are not part of \<^verbatim>\<open>app.js\<close> and are
  parameters: \<open>sanitizeData\<close> (\<^verbatim>\<open>voteData.sanitizeData\<close>), \<open>getMessages\<close> (the messages
  that validation against \<^verbatim>\<open>validationSchemes.createVoteData\<close> leaves in the collector)
  and \<open>filePath\<close> (the path resolver of \<^verbatim>\<open>voteData\<close>). \<open>new_id\<close> is the identifier that
  \<^verbatim>\<open>new voteData()\<close> generates and \<open>now\<close> the value of \<^verbatim>\<open>Date.now()\<close>.
\<close>

definition post_create ::
  "(request \<Rightarrow> sanitized) \<Rightarrow> (sanitized \<Rightarrow> string list) \<Rightarrow> (string \<Rightarrow> path) \<Rightarrow>
   string \<Rightarrow> nat \<Rightarrow> request \<Rightarrow> world \<Rightarrow> outcome" where
  "post_create sanitizeData getMessages filePath new_id now req w =
     (let sanitizedData = sanitizeData req;
          messages = getMessages sanitizedData
      in if messages \<noteq> [] then
           \<lparr>response = Redirect (baseUrl req @ ''/#container''),
            session_after =
              Some ((session req)\<lparr>errorMessages := Some messages, sbody := Some (body req)\<rparr>),
            cookies_after = [],
            world_after = w\<rparr>
         else
           let w1 = w\<lparr>log := log w @ [SessionNull]\<rparr>;
               p = filePath new_id
           in case mkdirSync (dirname p) w1 of
                Inl e \<Rightarrow>
                  \<lparr>response = Throw e, session_after = None,
                   cookies_after = [], world_after = w1\<rparr>
              | Inr w2 \<Rightarrow>
                  (case sd_data sanitizedData of
                     None \<Rightarrow>
                       \<lparr>response = Throw TypeError, session_after = None,
                        cookies_after = [], world_after = w2\<rparr>
                   | Some d \<Rightarrow>
                       (case writeFileSync p
                               (Json \<lparr>name = sd_name sanitizedData, data = normalize_data d,
                                      created_at = now, votes = []\<rparr>) w2 of
                          Inl e \<Rightarrow>
                            \<lparr>response = Throw e, session_after = None,
                             cookies_after = [], world_after = w2\<rparr>
                        | Inr w3 \<Rightarrow>
                            \<lparr>response = Redirect (baseUrl req @ ''/form/'' @ new_id @ ''/''),
                             session_after = None,
                             cookies_after = [],
                             world_after = w3\<rparr>)))"

section \<open>The poll object of \<^verbatim>\<open>libs/vote_data.js\<close>\<close>

text \<open>
  Modelled from the spec: \<^verbatim>\<open>isVoted\<close> of \<^verbatim>\<open>libs/vote_data.js\<close>, which is missing.
  Section 4.4: it checks for a per-poll marker cookie.
\<close>

definition isVoted :: "request \<Rightarrow> string \<Rightarrow> bool" where
  "isVoted req pid = (pid \<in> set (markers req))"

text \<open>
  Modelled from the spec: \<^verbatim>\<open>setUniquenessCookie\<close> of \<^verbatim>\<open>libs/vote_data.js\<close>, which is
  missing. Section 4.4: it sets a cookie scoped to that poll id. The result lists the polls
  whose marker the response sets.
\<close>

definition setUniquenessCookie :: "string \<Rightarrow> string list" where
  "setUniquenessCookie pid = [pid]"

text \<open>
  Modelled from the spec: \<^verbatim>\<open>data()\<close> of \<^verbatim>\<open>libs/vote_data.js\<close>, which is missing.
  Section 4.2, \<open>load\<close>: it reads and parses the poll file, fails with NotFound if the file
  is absent and with CorruptData if the file is not valid structured data. Line 134 of
  \<^verbatim>\<open>app.js\<close> performs the same two steps inline.
\<close>

definition load :: "(string \<Rightarrow> path) \<Rightarrow> string \<Rightarrow> world \<Rightarrow> error + poll" where
  "load filePath pid w =
     (case readFileSync (filePath pid) w of
        Inl e \<Rightarrow> Inl e
      | Inr c \<Rightarrow> JSON_parse c)"

text \<open>The tally of an option: its entry in \<open>votes\<close>, zero while there is none.\<close>

definition tally :: "poll \<Rightarrow> string \<Rightarrow> nat" where
  "tally p k = (case map_of (votes p) k of None \<Rightarrow> 0 | Some c \<Rightarrow> c)"

text \<open>
  Modelled from the spec: \<^verbatim>\<open>vote\<close> of \<^verbatim>\<open>libs/vote_data.js\<close>, which is missing.
  Section 4.3: it increments the tally for \<open>optionKey\<close> by one (creating the entry if
  absent) only if \<open>optionKey\<close> is one of the poll's known options; otherwise the vote is
  silently ignored.
\<close>

definition vote :: "poll \<Rightarrow> string \<Rightarrow> poll" where
  "vote p optionKey =
     (if optionKey \<in> set (data p)
      then p\<lparr>votes := AList.update optionKey (tally p optionKey + 1) (votes p)\<rparr>
      else p)"

text \<open>
  Modelled from the spec: the method \<^verbatim>\<open>voteDataInstance.vote(key)\<close>, which loads the poll,
  applies \<open>vote\<close> and, section 4.3, persists the updated poll synchronously after the
  increment. A key that is \<^verbatim>\<open>undefined\<close> is no option of any poll.
\<close>

definition vote_method :: "(string \<Rightarrow> path) \<Rightarrow> string \<Rightarrow> string option \<Rightarrow> world \<Rightarrow> error + world" where
  "vote_method filePath pid key w =
     (case load filePath pid w of
        Inl e \<Rightarrow> Inl e
      | Inr p \<Rightarrow>
          (case key of
             None \<Rightarrow> Inr w
           | Some k \<Rightarrow>
               if k \<in> set (data p)
               then writeFileSync (filePath pid) (Json (vote p k)) w
               else Inr w))"

text \<open>
  Modelled from the spec: \<^verbatim>\<open>sortData\<close> of \<^verbatim>\<open>libs/vote_data.js\<close>, which is missing.
  Section 4.3: the sequence of (option, count), descending by count, stable tie-break on
  the original option order. \<open>sort_key\<close> is the stable insertion sort of the library; the
  key is the negated count.
\<close>

definition entries :: "poll \<Rightarrow> (string \<times> nat) list" where
  "entries p = map (\<lambda>k. (k, tally p k)) (data p)"

definition sortData :: "poll \<Rightarrow> (string \<times> nat) list" where
  "sortData p = sort_key (\<lambda>e. - int (snd e)) (entries p)"

section \<open>Voting and viewing\<close>

text \<open>
  \<^verbatim>\<open>app.post('/result/:id/')\<close>. The identifier of \<^verbatim>\<open>new voteData(req.params.id)\<close> is the
  one of the route. \<open>voteM\<close> is the method \<^verbatim>\<open>voteDataInstance.vote\<close>. The view is built
  from \<^verbatim>\<open>sortData()\<close> and \<^verbatim>\<open>name()\<close>, which read the same document after the vote.
\<close>

definition post_result_with ::
  "(string \<Rightarrow> string option \<Rightarrow> world \<Rightarrow> error + world) \<Rightarrow> (string \<Rightarrow> path) \<Rightarrow>
   request \<Rightarrow> world \<Rightarrow> outcome" where
  "post_result_with voteM filePath req w =
     (let pid = params_id req
      in if isVoted req pid then
           \<lparr>response = Redirect (baseUrl req @ ''/form/'' @ pid @ ''/?is_voted=1''),
            session_after = Some (session req),
            cookies_after = [],
            world_after = w\<rparr>
         else
           let cookies = setUniquenessCookie pid
           in case voteM pid (map_of (body req) ''key'') w of
                Inl e \<Rightarrow>
                  \<lparr>response = Throw e, session_after = Some (session req),
                   cookies_after = cookies, world_after = w\<rparr>
              | Inr w1 \<Rightarrow>
                  \<lparr>response =
                     (case load filePath pid w1 of
                        Inl e \<Rightarrow> Throw e
                      | Inr p \<Rightarrow> Render ''result'' (ResultLocals (sortData p) (name p))),
                   session_after = Some (session req),
                   cookies_after = cookies,
                   world_after = w1\<rparr>)"

definition post_result :: "(string \<Rightarrow> path) \<Rightarrow> request \<Rightarrow> world \<Rightarrow> outcome" where
  "post_result filePath req w = post_result_with (vote_method filePath) filePath req w"


text \<open>The address of the voting form (line 129) and of the result view (line 174).\<close>

definition form_url :: "string \<Rightarrow> string \<Rightarrow> string" where
  "form_url base pid = base @ ''/form/'' @ pid @ ''/''"

definition result_url :: "string \<Rightarrow> string \<Rightarrow> string" where
  "result_url base pid = base @ ''/result/'' @ pid @ ''/''"

section \<open>Validation, as the specification words it\<close>

definition is_space :: "char \<Rightarrow> bool" where
  "is_space c = (c \<in> set [CHR '' '', CHR 0x09, LF, CHR 0x0B, CHR 0x0C, CR])"

definition trim :: "string \<Rightarrow> string" where
  "trim s = rev (dropWhile is_space (rev (dropWhile is_space s)))"

text \<open>
  The normalisation in the specification's words (section 4.2: dedupe, trim; section 3:
  blank lines removed), used by the validation below.
\<close>

definition spec_normalize :: "string \<Rightarrow> string list" where
  "spec_normalize d = dedup_first (filter (\<lambda>v. v \<noteq> []) (map trim (split_lines [] d)))"

text \<open>
  Modelled from the spec: the validation scheme \<^verbatim>\<open>validationSchemes.createVoteData\<close>
  (\<^verbatim>\<open>libs/shemes\<close>) and the collector \<^verbatim>\<open>libs/create_error_message.js\<close>, which are
  missing. Section 4.2: create fails with ValidationError if options are empty after
  normalization or required fields are missing. The result is the list of messages that
  \<^verbatim>\<open>getMessages()\<close> returns.
\<close>

definition createVoteData_messages :: "sanitized \<Rightarrow> string list" where
  "createVoteData_messages sd =
     (case sd_name sd of None \<Rightarrow> [''name''] | Some _ \<Rightarrow> []) @
     (case sd_data sd of
        None \<Rightarrow> [''data'']
      | Some d \<Rightarrow> if spec_normalize d = [] then [''data''] else [])"

section \<open>The invariant of a poll\<close>

definition poll_inv :: "poll \<Rightarrow> bool" where
  "poll_inv p = (distinct (data p) \<and> set (map fst (votes p)) \<subseteq> set (data p))"

definition world_inv :: "world \<Rightarrow> bool" where
  "world_inv w =
     list_all (\<lambda>(f, c). case c of Json p \<Rightarrow> poll_inv p | Malformed _ \<Rightarrow> True) (files w)"

section \<open>Concrete inputs\<close>

text \<open>A path resolver, a poll, a disk and requests on which the theorems are instantiated.\<close>

definition ex_path :: "string \<Rightarrow> path" where
  "ex_path pid = [''data'', pid]"

definition ex_poll :: poll where
  "ex_poll = \<lparr>name = Some ''Q'', data = [''A'', ''B'', ''C''], created_at = 0,
              votes = [(''A'', 2), (''B'', 5), (''C'', 2)]\<rparr>"

definition ex_world :: world where
  "ex_world = \<lparr>dirs = [[''data'']], files = [([''data'', ''p1''], Json ex_poll)], log = []\<rparr>"

definition ex_session :: sess where
  "ex_session = \<lparr>errorMessages = Some [''old''], sbody = Some [(''name'', ''old'')]\<rparr>"

definition ex_request :: "string \<Rightarrow> (string \<times> string) list \<Rightarrow> string list \<Rightarrow> request" where
  "ex_request pid b ms =
     \<lparr>baseUrl = [], params_id = pid, body = b, query_is_voted = None,
      session = ex_session, markers = ms\<rparr>"

text \<open>A sanitizer that finds nothing to remove.\<close>

definition ex_sanitizeData :: "request \<Rightarrow> sanitized" where
  "ex_sanitizeData req = \<lparr>sd_name = map_of (body req) ''name'', sd_data = map_of (body req) ''data''\<rparr>"

section \<open>Properties of the normalisation\<close>

lemma indexOf_neg_iff: "indexOf xs e < 0 \<longleftrightarrow> e \<notin> set xs"
  by (induction xs) (auto simp: Let_def)

lemma indexOf_notin: "e \<notin> set xs \<Longrightarrow> indexOf xs e = - 1"
  by (induction xs) (auto simp: Let_def)

lemma indexOf_bounds: "e \<in> set xs \<Longrightarrow> 0 \<le> indexOf xs e \<and> indexOf xs e < int (length xs)"
  by (induction xs) (auto simp: Let_def)

lemma indexOf_append:
  "indexOf (xs @ ys) e =
     (if e \<in> set xs then indexOf xs e
      else if e \<in> set ys then int (length xs) + indexOf ys e else - 1)"
proof (induction xs)
  case Nil
  then show ?case by (simp add: indexOf_notin)
next
  case (Cons x xs)
  then show ?case
    using indexOf_bounds [of e ys] indexOf_bounds [of e xs]
    by (auto simp: Let_def indexOf_notin)
qed

lemma indexOf_first:
  "indexOf (pre @ y # ys) y = int (length pre) \<longleftrightarrow> y \<notin> set pre"
  using indexOf_bounds [of y pre] by (auto simp: indexOf_append)

lemma unique_gen:
  "map snd (filter (\<lambda>(index, elem). indexOf (pre @ ys) elem = int index) (enumerate (length pre) ys))
   = dedup_first (filter (\<lambda>e. e \<notin> set pre) ys)"
proof (induction ys arbitrary: pre)
  case Nil
  then show ?case by simp
next
  case (Cons y ys)
  have step: "map snd (filter (\<lambda>(index, elem). indexOf (pre @ y # ys) elem = int index)
                 (enumerate (Suc (length pre)) ys))
              = dedup_first (filter (\<lambda>e. e \<notin> set (pre @ [y])) ys)"
    using Cons.IH [of "pre @ [y]"] by simp
  show ?case
  proof (cases "y \<in> set pre")
    case True
    then have "(\<lambda>e. e \<notin> set (pre @ [y])) = (\<lambda>e. e \<notin> set pre)" by auto
    with True step show ?thesis by (simp add: indexOf_first)
  next
    case False
    have "filter (\<lambda>e. e \<notin> set (pre @ [y])) ys = filter (\<lambda>e. e \<noteq> y) (filter (\<lambda>e. e \<notin> set pre) ys)"
      by (induction ys) auto
    with False step show ?thesis by (simp add: indexOf_first)
  qed
qed

lemma unique_dedup_first: "unique xs = dedup_first xs"
  using unique_gen [of "[]" xs] by (simp add: unique_def)

lemma set_dedup_first: "set (dedup_first xs) = set xs"
  by (induction xs rule: dedup_first.induct) auto

lemma distinct_dedup_first: "distinct (dedup_first xs)"
  by (induction xs rule: dedup_first.induct) (auto simp: set_dedup_first)

lemma dedup_first_Nil_iff: "dedup_first xs = [] \<longleftrightarrow> xs = []"
  by (cases xs) auto

section \<open>Properties of the cut at line breaks\<close>








section \<open>Properties of the poll operations\<close>

lemma list_all_update:
  "list_all P al \<Longrightarrow> P (k, v) \<Longrightarrow> list_all P (AList.update k v al)"
  by (induction al) auto

lemma poll_inv_vote: "poll_inv p \<Longrightarrow> poll_inv (vote p k)"
  using dom_update [of k "tally p k + 1" "votes p"]
  by (auto simp: poll_inv_def vote_def)

lemma normalize_data_dedup:
  "normalize_data d = dedup_first (filter (\<lambda>v. v \<noteq> []) (split_lines [] d))"
  by (simp add: normalize_data_def unique_dedup_first)

lemma poll_inv_created:
  "poll_inv \<lparr>name = n, data = normalize_data d, created_at = t, votes = []\<rparr>"
  by (simp add: poll_inv_def normalize_data_dedup distinct_dedup_first)

lemma writeFileSync_files:
  "writeFileSync f c w = Inr w' \<Longrightarrow>
   files w' = AList.update f c (files w) \<and> dirs w' = dirs w \<and> log w' = log w @ [WriteFile f]"
  by (auto simp: writeFileSync_def split: option.splits if_splits)

lemma mkdirSync_files:
  "mkdirSync d w = Inr w' \<Longrightarrow> files w' = files w \<and> log w' = log w @ [MkDir d]"
  by (auto simp: mkdirSync_def split: list.splits if_splits)

lemma world_inv_writeFileSync:
  "world_inv w \<Longrightarrow> poll_inv p \<Longrightarrow> writeFileSync f (Json p) w = Inr w' \<Longrightarrow> world_inv w'"
  by (auto simp: world_inv_def list_all_update dest: writeFileSync_files)

lemma world_inv_mkdirSync: "mkdirSync d w = Inr w' \<Longrightarrow> world_inv w' = world_inv w"
  by (auto simp: world_inv_def dest: mkdirSync_files)

lemma world_inv_log: "world_inv (w\<lparr>log := l\<rparr>) = world_inv w"
  by (simp add: world_inv_def)

lemma world_inv_post_create:
  assumes "world_inv w"
  shows "world_inv (world_after (post_create sanitizeData getMessages filePath new_id now req w))"
proof -
  let ?w1 = "w\<lparr>log := log w @ [SessionNull]\<rparr>"
  have w1: "world_inv ?w1" using assms by (simp add: world_inv_log)
  have w2: "world_inv w2" if "mkdirSync (dirname (filePath new_id)) ?w1 = Inr w2" for w2
    using that w1 by (simp add: world_inv_mkdirSync)
  have w3: "world_inv w3"
    if "mkdirSync (dirname (filePath new_id)) ?w1 = Inr w2"
      and "writeFileSync (filePath new_id)
             (Json \<lparr>name = n, data = normalize_data d, created_at = now, votes = []\<rparr>) w2 = Inr w3"
    for w2 w3 n d
    using that w2 poll_inv_created world_inv_writeFileSync by blast
  show ?thesis
    using assms w1 w2 w3
    by (auto simp: post_create_def Let_def split: sum.splits option.splits)
qed

lemma readFileSync_Inr:
  "readFileSync p w = Inr c \<Longrightarrow> map_of (files w) p = Some c"
  by (auto simp: readFileSync_def split: option.splits if_splits)

lemma load_poll_inv:
  "world_inv w \<Longrightarrow> load filePath pid w = Inr p \<Longrightarrow> poll_inv p"
proof -
  assume inv: "world_inv w" and l: "load filePath pid w = Inr p"
  from l have "readFileSync (filePath pid) w = Inr (Json p)"
    by (auto simp: load_def JSON_parse_def split: sum.splits content.splits)
  then have "map_of (files w) (filePath pid) = Some (Json p)" by (rule readFileSync_Inr)
  then have "(filePath pid, Json p) \<in> set (files w)" by (rule map_of_SomeD)
  with inv show "poll_inv p" by (auto simp: world_inv_def list_all_iff)
qed

lemma world_inv_vote_method:
  "world_inv w \<Longrightarrow> vote_method filePath pid key w = Inr w1 \<Longrightarrow> world_inv w1"
proof -
  assume inv: "world_inv w" and v: "vote_method filePath pid key w = Inr w1"
  from v obtain p where l: "load filePath pid w = Inr p"
    by (auto simp: vote_method_def split: sum.splits)
  from inv l have "poll_inv p" by (rule load_poll_inv)
  then have "world_inv w'" if "writeFileSync (filePath pid) (Json (vote p k)) w = Inr w'" for k w'
    using inv that poll_inv_vote world_inv_writeFileSync by blast
  with inv v l show "world_inv w1"
    by (auto simp: vote_method_def split: option.splits if_splits)
qed

lemma world_inv_post_result:
  "world_inv w \<Longrightarrow> world_inv (world_after (post_result filePath req w))"
  by (auto simp: post_result_def post_result_with_def Let_def split: sum.splits
      dest: world_inv_vote_method)

lemma normalize_empty_spec_empty:
  "normalize_data d = [] \<Longrightarrow> spec_normalize d = []"
proof -
  assume "normalize_data d = []"
  then have "filter (\<lambda>v. v \<noteq> []) (split_lines [] d) = []"
    by (simp add: normalize_data_dedup dedup_first_Nil_iff)
  then have "\<forall>l \<in> set (split_lines [] d). l = []"
    by (simp add: filter_empty_conv)
  then have "filter (\<lambda>v. v \<noteq> []) (map trim (split_lines [] d)) = []"
    by (auto simp: filter_empty_conv trim_def)
  then show ?thesis by (simp add: spec_normalize_def)
qed

lemma sortData_sorted: "sorted_wrt (\<lambda>a b. snd b \<le> snd a) (sortData p)"
proof -
  have "sorted (map (\<lambda>e. - int (snd e)) (sortData p))"
    unfolding sortData_def by (rule sorted_sort_key)
  then show ?thesis by (simp add: sorted_map)
qed

lemma sortData_stable:
  "filter (\<lambda>e. snd e = c) (sortData p) = filter (\<lambda>e. snd e = c) (entries p)"
  using sort_key_stable [of "\<lambda>e. - int (snd e)" "- int c" "entries p"]
  by (simp add: sortData_def)

lemma sortData_mset: "mset (sortData p) = mset (entries p)"
  by (simp add: sortData_def)

lemma proper_ancestors_2: "proper_ancestors [a, b] = [[a]]"
  by (simp add: proper_ancestors_def upt_rec)

lemma ancestors_1: "ancestors [a] = [[a]]"
  by (simp add: ancestors_def upt_rec)


lemma ex_load: "load ex_path ''p1'' ex_world = Inr ex_poll"
  by (simp add: load_def readFileSync_def resolve_parent_def proper_ancestors_2 is_dir_def
      JSON_parse_def ex_path_def ex_world_def)

lemma ex_mkdir:
  "mkdirSync [''data''] (ex_world\<lparr>log := l\<rparr>)
     = Inr (ex_world\<lparr>log := l @ [MkDir [''data'']]\<rparr>)"
  by (simp add: mkdirSync_def ancestors_1 is_file_def is_dir_def ex_world_def)

lemma ex_write:
  "writeFileSync [''data'', f] c (ex_world\<lparr>log := l\<rparr>)
     = Inr (ex_world\<lparr>files := AList.update [''data'', f] c (files ex_world),
                       log := l @ [WriteFile [''data'', f]]\<rparr>)"
  by (simp add: writeFileSync_def resolve_parent_def proper_ancestors_2 is_dir_def ex_world_def)

lemma ex_world_log: "ex_world\<lparr>log := []\<rparr> = ex_world"
  by (simp add: ex_world_def)

section \<open>Claims about voting twice\<close>

text \<open>
  C1, as amended: for every \<^verbatim>\<open>POST /result/:id/\<close> request whose per-poll uniqueness cookie
  is already present, the handler redirects to the voting form of the poll,
  \<^verbatim>\<open>/form/:id/?is_voted=1\<close>.
\<close>

theorem post_result_voted_redirects_to_form:
  "isVoted req (params_id req) \<Longrightarrow>
   response (post_result filePath req w)
     = Redirect (form_url (baseUrl req) (params_id req) @ ''?is_voted=1'')"
  by (simp add: post_result_def post_result_with_def form_url_def)

text \<open>The browser that already voted in poll \<open>p1\<close> is sent to the form of \<open>p1\<close>.\<close>

theorem post_result_voted_redirects_to_form_witness:
  "isVoted (ex_request ''p1'' [(''key'', ''A'')] [''p1'']) (params_id (ex_request ''p1'' [(''key'', ''A'')] [''p1'']))
   \<and> response (post_result ex_path (ex_request ''p1'' [(''key'', ''A'')] [''p1'']) ex_world)
       = Redirect ''/form/p1/?is_voted=1''"
  using post_result_voted_redirects_to_form
    [of "ex_request ''p1'' [(''key'', ''A'')] [''p1'']" ex_path ex_world]
  by (simp add: isVoted_def ex_request_def form_url_def)

text \<open>
  C1 as stated fails: the target of the redirect is the address of the voting form and
  does not begin with the address of the result view.
\<close>

theorem post_result_voted_result_view_counterexample:
  "isVoted (ex_request ''p1'' [(''key'', ''A'')] [''p1'']) ''p1''
   \<and> response (post_result ex_path (ex_request ''p1'' [(''key'', ''A'')] [''p1'']) ex_world)
       = Redirect ''/form/p1/?is_voted=1''
   \<and> response (post_result ex_path (ex_request ''p1'' [(''key'', ''A'')] [''p1'']) ex_world)
       \<noteq> Redirect (result_url [] ''p1'' @ ''?is_voted=1'')
   \<and> take (length (result_url [] ''p1'')) ''/form/p1/?is_voted=1'' \<noteq> result_url [] ''p1''"
  by (simp add: post_result_def post_result_with_def isVoted_def ex_request_def result_url_def)

section \<open>Claims about creating a poll\<close>

text \<open>
  C2: a \<^verbatim>\<open>POST /create\<close> request whose option list is empty after normalization fails
  validation: the handler redirects back with the messages in the session, and the disk
  (directories, files, log of mutations) is as before. The validation is the one of the
  specification; the options count as empty when the handler's own normalisation or the
  specification's (with trimming) leaves none.
\<close>

theorem create_rejects_empty_options:
  assumes "sd_data (sanitizeData req) = Some d"
    and "normalize_data d = [] \<or> spec_normalize d = []"
  shows "createVoteData_messages (sanitizeData req) \<noteq> []
    \<and> post_create sanitizeData createVoteData_messages filePath new_id now req w
      = \<lparr>response = Redirect (baseUrl req @ ''/#container''),
         session_after = Some ((session req)
           \<lparr>errorMessages := Some (createVoteData_messages (sanitizeData req)),
            sbody := Some (body req)\<rparr>),
         cookies_after = [],
         world_after = w\<rparr>"
proof -
  from assms(2) have "spec_normalize d = []"
    by (auto dest: normalize_empty_spec_empty)
  with assms(1) have m: "createVoteData_messages (sanitizeData req) \<noteq> []"
    by (simp add: createVoteData_messages_def)
  then show ?thesis by (simp add: post_create_def Let_def)
qed

text \<open>A submission of three line breaks only.\<close>

theorem create_rejects_empty_options_witness:
  "sd_data (ex_sanitizeData (ex_request [] [(''name'', ''Q''), (''data'', [CR, LF, LF])] [])) = Some [CR, LF, LF]
   \<and> normalize_data [CR, LF, LF] = []
   \<and> world_after (post_create ex_sanitizeData createVoteData_messages ex_path ''n1'' 7
        (ex_request [] [(''name'', ''Q''), (''data'', [CR, LF, LF])] []) ex_world) = ex_world
   \<and> response (post_create ex_sanitizeData createVoteData_messages ex_path ''n1'' 7
        (ex_request [] [(''name'', ''Q''), (''data'', [CR, LF, LF])] []) ex_world) = Redirect ''/#container''"
proof -
  have d: "sd_data (ex_sanitizeData (ex_request [] [(''name'', ''Q''), (''data'', [CR, LF, LF])] [])) = Some [CR, LF, LF]"
    by (simp add: ex_sanitizeData_def ex_request_def)
  have n: "normalize_data [CR, LF, LF] = []"
    by (simp add: normalize_data_def unique_def)
  from n have n': "normalize_data [CR, LF, LF] = [] \<or> spec_normalize [CR, LF, LF] = []" ..
  show ?thesis
    using create_rejects_empty_options
      [where sanitizeData = ex_sanitizeData and d = "[CR, LF, LF]" and filePath = ex_path
         and req = "ex_request [] [(''name'', ''Q''), (''data'', [CR, LF, LF])] []"
         and new_id = "''n1''" and now = 7 and w = ex_world, OF d n'] d n
    by (simp add: ex_request_def)
qed




text \<open>
  C9: for every \<^verbatim>\<open>POST /create\<close> request that passes validation, the session is null after
  the handler, and setting it to null is the first mutation: it comes before the directory
  is made and before the poll file is written. Where the directory cannot be made nothing
  follows; the write is logged exactly when the handler answers with a redirect.
\<close>

theorem create_clears_session_before_write:
  assumes "getMessages (sanitizeData req) = []"
  shows "session_after (post_create sanitizeData getMessages filePath new_id now req w) = None
    \<and> log (world_after (post_create sanitizeData getMessages filePath new_id now req w))
      = log w @ SessionNull #
          (case mkdirSync (dirname (filePath new_id)) (w\<lparr>log := log w @ [SessionNull]\<rparr>) of
             Inl e \<Rightarrow> []
           | Inr w2 \<Rightarrow>
               MkDir (dirname (filePath new_id)) #
                 (case response (post_create sanitizeData getMessages filePath new_id now req w) of
                    Redirect u \<Rightarrow> [WriteFile (filePath new_id)]
                  | Render v l \<Rightarrow> []
                  | Throw e \<Rightarrow> []))"
proof -
  let ?p = "filePath new_id"
  let ?w1 = "w\<lparr>log := log w @ [SessionNull]\<rparr>"
  show ?thesis
  proof (cases "mkdirSync (dirname ?p) ?w1")
    case (Inl e)
    with assms show ?thesis by (simp add: post_create_def Let_def)
  next
    case (Inr w2)
    then have l2: "log w2 = log w @ [SessionNull, MkDir (dirname ?p)]"
      by (auto dest: mkdirSync_files)
    show ?thesis
    proof (cases "sd_data (sanitizeData req)")
      case None
      with assms Inr l2 show ?thesis by (simp add: post_create_def Let_def)
    next
      case (Some d)
      show ?thesis
      proof (cases "writeFileSync ?p (Json \<lparr>name = sd_name (sanitizeData req),
                       data = normalize_data d, created_at = now, votes = []\<rparr>) w2")
        case (Inl e)
        with assms Inr Some l2 show ?thesis by (simp add: post_create_def Let_def)
      next
        case w3: (Inr w3)
        then have "log w3 = log w2 @ [WriteFile ?p]" by (auto dest: writeFileSync_files)
        with assms Inr Some l2 w3 show ?thesis by (simp add: post_create_def Let_def)
      qed
    qed
  qed
qed

text \<open>A session that still holds the messages and the body of an earlier failure.\<close>

theorem create_clears_session_before_write_witness:
  "session (ex_request [] [(''name'', ''Q''), (''data'', ''A'')] [])
     = \<lparr>errorMessages = Some [''old''], sbody = Some [(''name'', ''old'')]\<rparr>
   \<and> session_after (post_create ex_sanitizeData (\<lambda>sd. []) ex_path ''n1'' 7
        (ex_request [] [(''name'', ''Q''), (''data'', ''A'')] []) ex_world) = None
   \<and> log (world_after (post_create ex_sanitizeData (\<lambda>sd. []) ex_path ''n1'' 7
        (ex_request [] [(''name'', ''Q''), (''data'', ''A'')] []) ex_world))
      = [SessionNull, MkDir [''data''], WriteFile [''data'', ''n1'']]"
proof -
  have m: "(\<lambda>sd. []) (ex_sanitizeData (ex_request [] [(''name'', ''Q''), (''data'', ''A'')] []))
             = ([] :: string list)"
    by simp
  show ?thesis
    using create_clears_session_before_write
      [where sanitizeData = ex_sanitizeData and getMessages = "\<lambda>sd. []" and filePath = ex_path
         and req = "ex_request [] [(''name'', ''Q''), (''data'', ''A'')] []"
         and new_id = "''n1''" and now = 7 and w = ex_world, OF m]
    by (simp add: post_create_def Let_def ex_request_def ex_session_def ex_sanitizeData_def
        ex_path_def dirname_def ex_mkdir ex_write)
      (simp add: ex_world_def)
qed

text \<open>
  C10: for every \<^verbatim>\<open>POST /create\<close> request whose validation yields at least one message,
  whatever the validation scheme is, the handler redirects back, the session holds the
  messages and the submitted body, and the disk is as before: no directory made, no file
  written, no mutation logged.
\<close>

theorem create_invalid_redirects_before_fs:
  assumes "getMessages (sanitizeData req) \<noteq> []"
  shows "post_create sanitizeData getMessages filePath new_id now req w
      = \<lparr>response = Redirect (baseUrl req @ ''/#container''),
         session_after = Some ((session req)
           \<lparr>errorMessages := Some (getMessages (sanitizeData req)),
            sbody := Some (body req)\<rparr>),
         cookies_after = [],
         world_after = w\<rparr>"
  using assms by (simp add: post_create_def Let_def)

text \<open>A validation that complains about the name, not about the options.\<close>

theorem create_invalid_redirects_before_fs_witness:
  "(\<lambda>sd. [''name is too long'']) (ex_sanitizeData (ex_request [] [(''name'', ''Q''), (''data'', ''A'')] []))
     \<noteq> ([] :: string list)
   \<and> post_create ex_sanitizeData (\<lambda>sd. [''name is too long'']) ex_path ''n1'' 7
        (ex_request [] [(''name'', ''Q''), (''data'', ''A'')] []) ex_world
      = \<lparr>response = Redirect ''/#container'',
         session_after = Some \<lparr>errorMessages = Some [''name is too long''],
                                sbody = Some [(''name'', ''Q''), (''data'', ''A'')]\<rparr>,
         cookies_after = [],
         world_after = ex_world\<rparr>"
proof -
  have m: "(\<lambda>sd. [''name is too long''])
             (ex_sanitizeData (ex_request [] [(''name'', ''Q''), (''data'', ''A'')] []))
           \<noteq> ([] :: string list)"
    by simp
  show ?thesis
    using create_invalid_redirects_before_fs
      [where sanitizeData = ex_sanitizeData and getMessages = "\<lambda>sd. [''name is too long'']"
         and filePath = ex_path
         and req = "ex_request [] [(''name'', ''Q''), (''data'', ''A'')] []"
         and new_id = "''n1''" and now = 7 and w = ex_world, OF m]
    by (simp add: ex_request_def ex_session_def)
qed

section \<open>Claims about the vote\<close>

text \<open>
  C6: for every \<^verbatim>\<open>POST /result/:id/\<close> request whose per-poll uniqueness cookie is already
  present, the disk after the handler is the disk before it and no cookie is set. This
  holds for every implementation of the vote method, and the outcome is the same for any
  two of them: the method is not invoked.
\<close>

theorem post_result_voted_no_vote:
  "isVoted req (params_id req) \<Longrightarrow>
   world_after (post_result_with voteM filePath req w) = w
   \<and> cookies_after (post_result_with voteM filePath req w) = []
   \<and> post_result_with voteM filePath req w = post_result_with voteM' filePath req w
   \<and> world_after (post_result filePath req w) = w"
  by (simp add: post_result_def post_result_with_def)

text \<open>
  With a vote method that would overwrite the poll file the disk stays as it is; without
  the cookie the same request raises the tally of A from 2 to 3.
\<close>

theorem post_result_voted_no_vote_witness:
  "isVoted (ex_request ''p1'' [(''key'', ''A'')] [''p1'']) (params_id (ex_request ''p1'' [(''key'', ''A'')] [''p1'']))
   \<and> world_after (post_result_with (\<lambda>pid key w. writeFileSync (ex_path pid) (Malformed []) w)
        ex_path (ex_request ''p1'' [(''key'', ''A'')] [''p1'']) ex_world) = ex_world
   \<and> files (world_after (post_result ex_path (ex_request ''p1'' [(''key'', ''A'')] [''p1'']) ex_world))
       = [([''data'', ''p1''], Json ex_poll)]
   \<and> files (world_after (post_result ex_path (ex_request ''p1'' [(''key'', ''A'')] []) ex_world))
       = [([''data'', ''p1''], Json (ex_poll\<lparr>votes := [(''A'', 3), (''B'', 5), (''C'', 2)]\<rparr>))]"
proof -
  have v: "isVoted (ex_request ''p1'' [(''key'', ''A'')] [''p1''])
             (params_id (ex_request ''p1'' [(''key'', ''A'')] [''p1'']))"
    by (simp add: isVoted_def ex_request_def)
  have fresh: "files (world_after (post_result ex_path (ex_request ''p1'' [(''key'', ''A'')] []) ex_world))
       = [([''data'', ''p1''], Json (ex_poll\<lparr>votes := [(''A'', 3), (''B'', 5), (''C'', 2)]\<rparr>))]"
    using ex_write [of "''p1''" "Json (vote ex_poll ''A'')" "[]"]
    by (simp add: post_result_def post_result_with_def Let_def isVoted_def ex_request_def
        vote_method_def ex_load ex_world_log ex_path_def)
      (simp add: ex_world_def vote_def tally_def ex_poll_def)
  show ?thesis
    using post_result_voted_no_vote
      [OF v, of "\<lambda>pid key w. writeFileSync (ex_path pid) (Malformed []) w" ex_path ex_world]
      v fresh
    by (simp add: ex_world_def)
qed

text \<open>
  C5: for every poll and every \<open>optionKey\<close> that is not one of its options, \<open>vote\<close> returns
  the poll as it is and the vote method returns normally with the disk unchanged; for an
  \<open>optionKey\<close> that is an option, the tally of that option grows by exactly one, an absent
  entry is created at count 1, every other entry and the options stay as they are.
\<close>

theorem vote_increments_known_ignores_unknown:
  "(optionKey \<notin> set (data p) \<longrightarrow>
      vote p optionKey = p
      \<and> (load filePath pid w = Inr p \<longrightarrow> vote_method filePath pid (Some optionKey) w = Inr w))
   \<and> (optionKey \<in> set (data p) \<longrightarrow>
      tally (vote p optionKey) optionKey = tally p optionKey + 1
      \<and> (map_of (votes p) optionKey = None \<longrightarrow> map_of (votes (vote p optionKey)) optionKey = Some 1)
      \<and> (\<forall>k. k \<noteq> optionKey \<longrightarrow> map_of (votes (vote p optionKey)) k = map_of (votes p) k)
      \<and> data (vote p optionKey) = data p)"
  by (simp add: vote_def vote_method_def tally_def update_conv')

text \<open>An unknown key, a key with five votes and a key without an entry.\<close>

theorem vote_increments_known_ignores_unknown_witness:
  "''Z'' \<notin> set (data ex_poll) \<and> vote ex_poll ''Z'' = ex_poll
   \<and> load ex_path ''p1'' ex_world = Inr ex_poll
   \<and> vote_method ex_path ''p1'' (Some ''Z'') ex_world = Inr ex_world
   \<and> ''B'' \<in> set (data ex_poll) \<and> tally ex_poll ''B'' = 5 \<and> tally (vote ex_poll ''B'') ''B'' = 6
   \<and> ''A'' \<in> set (data (ex_poll\<lparr>votes := []\<rparr>))
   \<and> map_of (votes (vote (ex_poll\<lparr>votes := []\<rparr>) ''A'')) ''A'' = Some 1"
proof -
  have l: "load ex_path ''p1'' ex_world = Inr ex_poll"
    by (rule ex_load)
  have z: "''Z'' \<notin> set (data ex_poll)" and b: "''B'' \<in> set (data ex_poll)"
    and a: "''A'' \<in> set (data (ex_poll\<lparr>votes := []\<rparr>))"
    by (simp_all add: ex_poll_def)
  have t: "tally ex_poll ''B'' = 5" by (simp add: tally_def ex_poll_def)
  show ?thesis
    using vote_increments_known_ignores_unknown [of "''Z''" ex_poll ex_path "''p1''" ex_world]
      vote_increments_known_ignores_unknown [of "''B''" ex_poll]
      vote_increments_known_ignores_unknown [of "''A''" "ex_poll\<lparr>votes := []\<rparr>"]
      l z b a t
    by simp
qed

text \<open>
  C4: for every poll, \<open>sortData\<close> returns the (option, count) pairs of the poll, rearranged
  so that the counts descend, and pairs of equal count keep the order the options have
  in \<open>data\<close>. Tallies A:2, B:5, C:2 over the options A, B, C give (B,5), (A,2), (C,2).
\<close>

theorem sortData_descending_stable:
  "mset (sortData p) = mset (entries p)
   \<and> sorted_wrt (\<lambda>a b. snd b \<le> snd a) (sortData p)
   \<and> (\<forall>c. filter (\<lambda>e. snd e = c) (sortData p) = filter (\<lambda>e. snd e = c) (entries p))
   \<and> sortData \<lparr>name = n, data = [''A'', ''B'', ''C''], created_at = t,
                 votes = [(''A'', 2), (''B'', 5), (''C'', 2)]\<rparr>
       = [(''B'', 5), (''A'', 2), (''C'', 2)]"
proof -
  have "sortData \<lparr>name = n, data = [''A'', ''B'', ''C''], created_at = t,
                 votes = [(''A'', 2), (''B'', 5), (''C'', 2)]\<rparr>
       = [(''B'', 5), (''A'', 2), (''C'', 2)]"
    by (simp add: sortData_def entries_def tally_def)
  then show ?thesis
    by (simp add: sortData_mset sortData_sorted sortData_stable)
qed

text \<open>The two options with two votes stay in their original order.\<close>

theorem sortData_descending_stable_witness:
  "sortData ex_poll = [(''B'', 5), (''A'', 2), (''C'', 2)]
   \<and> filter (\<lambda>e. snd e = 2) (sortData ex_poll) = [(''A'', 2), (''C'', 2)]"
  using sortData_descending_stable [of ex_poll "Some ''Q''" 0]
  by (simp add: ex_poll_def entries_def tally_def)

section \<open>Claims about loading a poll\<close>




section \<open>Claims about the invariant\<close>

text \<open>
  C8: create and vote preserve the invariant that the options in \<open>data\<close> are pairwise
  distinct and that every key of \<open>votes\<close> is one of them: when every poll on disk satisfies
  it, so does every poll on disk after \<^verbatim>\<open>POST /create\<close> and after \<^verbatim>\<open>POST /result/:id/\<close>;
  \<open>vote\<close> keeps it, and the document that create writes satisfies it.
\<close>

theorem operations_preserve_poll_inv:
  "world_inv w \<Longrightarrow>
   world_inv (world_after (post_create sanitizeData getMessages filePath new_id now req w))
   \<and> world_inv (world_after (post_result filePath req' w))
   \<and> (poll_inv p \<longrightarrow> poll_inv (vote p k))
   \<and> poll_inv \<lparr>name = n, data = normalize_data d, created_at = t, votes = []\<rparr>"
  by (simp add: world_inv_post_create world_inv_post_result poll_inv_vote poll_inv_created)

text \<open>The example disk satisfies the invariant, and still does after a create and a vote.\<close>

theorem operations_preserve_poll_inv_witness:
  "world_inv ex_world \<and> poll_inv ex_poll
   \<and> world_inv (world_after (post_create ex_sanitizeData (\<lambda>sd. []) ex_path ''n1'' 7
        (ex_request [] [(''name'', ''Q''), (''data'', ''A'')] []) ex_world))
   \<and> world_inv (world_after (post_result ex_path (ex_request ''p1'' [(''key'', ''A'')] []) ex_world))
   \<and> poll_inv (vote ex_poll ''A'')"
proof -
  have p: "poll_inv ex_poll" by (simp add: poll_inv_def ex_poll_def)
  then have w: "world_inv ex_world" by (simp add: world_inv_def ex_world_def)
  show ?thesis
    using operations_preserve_poll_inv
      [where sanitizeData = ex_sanitizeData and getMessages = "\<lambda>sd. []" and filePath = ex_path
         and new_id = "''n1''" and now = 7
         and req = "ex_request [] [(''name'', ''Q''), (''data'', ''A'')] []"
         and req' = "ex_request ''p1'' [(''key'', ''A'')] []" and p = ex_poll and k = "''A''",
       OF w] p w
    by simp
qed

end
